theory Spec2Isabelle
  imports Complex_Main "HOL-Library.AList"
begin

section \<open>Python values, exceptions and library primitives\<close>

text \<open>
  The pipeline moves dynamically typed field values around: \<open>None\<close>, booleans, integers,
  floats, strings and lists (as decoded from CSV, JSON or YAML).  A finite float is
  represented by the rational number it denotes; the model of the program computes no
  arithmetic on floats.  A string is the list of its characters.  A Python \<open>dict\<close> with string
  keys is a map \<open>string \<rightharpoonup> 'v\<close>.
\<close>

datatype pyval =
    PNone
  | PBool bool
  | PInt int
  | PFloat rat
  | PStr string
  | PList "pyval list"

type_synonym pydict = "string \<rightharpoonup> pyval"

text \<open>
  An exception is a value: its class and its message (\<open>str(e)\<close>).  A subclass that an
  \<open>except\<close> clause of the program catches through its base class is represented by that
  base class.
\<close>

datatype exn_class =
    ValueError | TypeError | NameError | SyntaxError | ZeroDivisionError
  | InvalidOperation | FileNotFoundError | OtherError

datatype exn = Raise exn_class string

fun exn_message :: "exn \<Rightarrow> string" where
  "exn_message (Raise c m) = m"

fun exn_is :: "exn_class list \<Rightarrow> exn \<Rightarrow> bool" where
  "exn_is cs (Raise c m) = (c \<in> set cs)"

text \<open>\<open>decimal.Decimal\<close>: exact decimal numbers, the infinities and NaN.\<close>

datatype decimal = Dec rat | DInf bool | DNaN

record datetime =
  dt_year :: nat
  dt_month :: nat
  dt_day :: nat
  dt_hour :: nat
  dt_minute :: nat
  dt_second :: nat

text \<open>
  The functions of the Python standard library that the program calls and whose
  behaviour is not part of the program are parameters of the model.  Every theorem
  below holds for every behaviour of these primitives.
  \<^item> \<open>re_search p s\<close>, \<open>re_match p s\<close>: whether \<open>re.search(p, s)\<close> (\<open>re.match\<close>) finds a
    match; the pattern may be \<open>None\<close>, and the call may raise.
  \<^item> \<open>py_int\<close>, \<open>py_float\<close>, \<open>Decimal\<close>: the constructors \<open>int(v)\<close>, \<open>float(v)\<close>,
    \<open>Decimal(v)\<close>.
  \<^item> \<open>fromisoformat\<close>: \<open>datetime.fromisoformat\<close>.
  \<^item> \<open>py_str\<close>: \<open>str(v)\<close>; \<open>str_upper\<close>, \<open>str_lower\<close>, \<open>str_strip\<close>: the string methods.
  \<^item> \<open>py_eval f env\<close>: \<open>eval(f, {"__builtins__": {}}, env)\<close>.
  \<^item> \<open>md5_hexdigest\<close>, \<open>sha256_hexdigest\<close>: the digests of \<open>hashlib\<close>.
\<close>

record pylib =
  re_search :: "string option \<Rightarrow> string \<Rightarrow> exn + bool"
  re_match :: "pyval \<Rightarrow> string \<Rightarrow> exn + bool"
  py_int :: "pyval \<Rightarrow> exn + int"
  py_float :: "pyval \<Rightarrow> exn + pyval"
  Decimal :: "pyval \<Rightarrow> exn + decimal"
  fromisoformat :: "string \<Rightarrow> exn + datetime"
  py_str :: "pyval \<Rightarrow> string"
  str_upper :: "string \<Rightarrow> string"
  str_lower :: "string \<Rightarrow> string"
  str_strip :: "string \<Rightarrow> string"
  py_eval :: "pyval \<Rightarrow> pydict \<Rightarrow> exn + pyval"
  md5_hexdigest :: "string \<Rightarrow> string"
  sha256_hexdigest :: "string \<Rightarrow> string"

text \<open>Truth value testing (\<open>bool(v)\<close>, \<open>if v\<close>, \<open>not v\<close>).\<close>

fun truthy :: "pyval \<Rightarrow> bool" where
  "truthy PNone = False"
| "truthy (PBool b) = b"
| "truthy (PInt i) = (i \<noteq> 0)"
| "truthy (PFloat q) = (q \<noteq> 0)"
| "truthy (PStr s) = (s \<noteq> [])"
| "truthy (PList xs) = (xs \<noteq> [])"

text \<open>\<open>p in s\<close> for two strings: \<open>p\<close> occurs in \<open>s\<close> as a contiguous substring.\<close>

fun str_contains :: "string \<Rightarrow> string \<Rightarrow> bool" where
  "str_contains p [] = (p = [])"
| "str_contains p (c # cs) = (take (length p) (c # cs) = p \<or> str_contains p cs)"


section \<open>Data model (models.py)\<close>

datatype RowStatus = VALID | FLAGGED | ERROR | PENDING

datatype FileStatus =
  FS_PENDING | FS_PROCESSING | FS_PARTIAL_SUCCESS | FS_SUCCESS | FS_FAILED

text \<open>
  A violation is the dictionary the validators build, with keys \<open>field\<close> (or \<open>fields\<close>),
  \<open>rule\<close> and \<open>message\<close>, in the order of the dictionary display.
\<close>

type_synonym violation = "(string \<times> pyval) list"

record Row =
  row_id :: string
  file_id :: string
  line_number :: int
  raw_data :: pydict
  normalized_data :: pydict
  canonical_data :: pydict
  status :: RowStatus
  validation_errors :: "violation list"
  mapping_confidence :: "string \<rightharpoonup> rat"
  ai_suggestions :: pydict
  approved_by :: "string option"
  approved_at :: "datetime option"

record MappingRule =
  vendor_field :: string
  canonical_field :: string
  rule_type :: string
  pattern :: "string option"
  priority :: int
  fallback :: bool
  confidence :: rat


section \<open>Field mapping (mapper.py)\<close>

record FieldMapper =
  mapping_rules :: "MappingRule list"
  unmapped_fields :: "string set"

text \<open>\<open>FieldMapper.__init__\<close>: \<open>sorted\<close> is stable, as \<open>sort_key\<close> is.\<close>

definition FieldMapper_init :: "MappingRule list \<Rightarrow> FieldMapper" where
  "FieldMapper_init rules =
     \<lparr>mapping_rules = sort_key priority rules, unmapped_fields = {}\<rparr>"

text \<open>The three local variables that the loop of \<open>map_row\<close> updates.\<close>

record map_state =
  mapped :: pydict
  confidence_scores :: "string \<rightharpoonup> rat"
  used_fields :: "string set"

definition write_field :: "MappingRule \<Rightarrow> pyval \<Rightarrow> map_state \<Rightarrow> map_state" where
  "write_field rule val st =
     \<lparr>mapped = (mapped st)(canonical_field rule \<mapsto> val),
      confidence_scores = (confidence_scores st)(canonical_field rule \<mapsto> confidence rule),
      used_fields = insert (vendor_field rule) (used_fields st)\<rparr>"

text \<open>
  One iteration of the loop over the rules.  \<open>rule.pattern in value\<close> raises
  \<open>TypeError\<close> when the pattern is \<open>None\<close>.
\<close>

definition apply_rule :: "pylib \<Rightarrow> pydict \<Rightarrow> MappingRule \<Rightarrow> map_state \<Rightarrow> exn + map_state" where
  "apply_rule lib source_data rule st =
     (case source_data (vendor_field rule) of
        None \<Rightarrow> Inr st
      | Some val \<Rightarrow>
          if rule_type rule = ''exact'' then Inr (write_field rule val st)
          else if rule_type rule = ''regex'' then
            (case val of
               PStr s \<Rightarrow>
                 (case re_search lib (pattern rule) s of
                    Inl e \<Rightarrow> Inl e
                  | Inr m \<Rightarrow> Inr (if m then write_field rule val st else st))
             | _ \<Rightarrow> Inr st)
          else if rule_type rule = ''substring'' then
            (case val of
               PStr s \<Rightarrow>
                 (case pattern rule of
                    None \<Rightarrow> Inl (Raise TypeError
                      (CHR 0x27 # ''in <string>'' @ CHR 0x27 #
                       '' requires string as left operand, not NoneType''))
                  | Some p \<Rightarrow> Inr (if str_contains p s then write_field rule val st else st))
             | _ \<Rightarrow> Inr st)
          else Inr st)"

fun apply_rules :: "pylib \<Rightarrow> pydict \<Rightarrow> MappingRule list \<Rightarrow> map_state \<Rightarrow> exn + map_state" where
  "apply_rules lib source_data [] st = Inr st"
| "apply_rules lib source_data (rule # rules) st =
     (case apply_rule lib source_data rule st of
        Inl e \<Rightarrow> Inl e
      | Inr st' \<Rightarrow> apply_rules lib source_data rules st')"

text \<open>\<open>row.normalized_data or row.raw_data\<close>: an empty dictionary is falsy.\<close>

definition source_data_of :: "Row \<Rightarrow> pydict" where
  "source_data_of row =
     (if normalized_data row = Map.empty then raw_data row else normalized_data row)"

text \<open>
  \<open>FieldMapper.map_row\<close>.  The method returns the pair \<open>(mapped, confidence)\<close> and adds
  the source fields that no rule used to \<open>self.unmapped_fields\<close>; the model returns the
  updated mapper next to the pair.  An exception raised inside the loop escapes.
\<close>

definition map_row ::
  "pylib \<Rightarrow> FieldMapper \<Rightarrow> Row \<Rightarrow> exn + (FieldMapper \<times> (pydict \<times> (string \<rightharpoonup> rat)))" where
  "map_row lib self row =
     (let source_data = source_data_of row;
          source_fields = dom source_data
      in case apply_rules lib source_data (mapping_rules self)
                \<lparr>mapped = Map.empty, confidence_scores = Map.empty, used_fields = {}\<rparr> of
           Inl e \<Rightarrow> Inl e
         | Inr st \<Rightarrow>
             Inr (self\<lparr>unmapped_fields :=
                          unmapped_fields self \<union> (source_fields - used_fields st)\<rparr>,
                  (mapped st, confidence_scores st)))"

text \<open>The value the method returns: the pair, or the exception that escapes.\<close>

definition map_row_result ::
  "pylib \<Rightarrow> FieldMapper \<Rightarrow> Row \<Rightarrow> exn + (pydict \<times> (string \<rightharpoonup> rat))" where
  "map_row_result lib self row = map_sum id snd (map_row lib self row)"


section \<open>More of the language: equality, membership, iteration, comparison\<close>

fun py_num :: "pyval \<Rightarrow> rat option" where
  "py_num (PBool b) = Some (if b then 1 else 0)"
| "py_num (PInt i) = Some (of_int i)"
| "py_num (PFloat q) = Some q"
| "py_num v = None"

text \<open>\<open>a == b\<close>: numbers compare by value across \<open>bool\<close>, \<open>int\<close> and \<open>float\<close>.\<close>

fun py_eq :: "pyval \<Rightarrow> pyval \<Rightarrow> bool" where
  "py_eq (PList xs) (PList ys) = list_all2 py_eq xs ys"
| "py_eq (PStr s) (PStr t) = (s = t)"
| "py_eq PNone PNone = True"
| "py_eq a b = (case (py_num a, py_num b) of (Some x, Some y) \<Rightarrow> x = y | _ \<Rightarrow> False)"

text \<open>\<open>for v in c\<close>: a list yields its elements, a string its characters.\<close>

fun py_iter :: "pyval \<Rightarrow> exn + pyval list" where
  "py_iter (PList xs) = Inr xs"
| "py_iter (PStr s) = Inr (map (\<lambda>c. PStr [c]) s)"
| "py_iter v = Inl (Raise TypeError ''object is not iterable'')"


text \<open>\<open>n < v\<close> and \<open>n > v\<close> for an integer \<open>n\<close> (a length) and a configured value.\<close>

definition int_lt :: "int \<Rightarrow> pyval \<Rightarrow> exn + bool" where
  "int_lt n v = (case py_num v of
      Some q \<Rightarrow> Inr (of_int n < q)
    | None \<Rightarrow> Inl (Raise TypeError ''< not supported between these instances''))"

definition int_gt :: "int \<Rightarrow> pyval \<Rightarrow> exn + bool" where
  "int_gt n v = (case py_num v of
      Some q \<Rightarrow> Inr (of_int n > q)
    | None \<Rightarrow> Inl (Raise TypeError ''> not supported between these instances''))"

text \<open>
  \<open>a < b\<close> on \<open>Decimal\<close>: exact on numbers; an ordering comparison that involves NaN
  signals \<open>InvalidOperation\<close>.  \<open>DInf True\<close> is \<open>+Infinity\<close>.
\<close>

fun dec_lt :: "decimal \<Rightarrow> decimal \<Rightarrow> exn + bool" where
  "dec_lt (Dec a) (Dec b) = Inr (a < b)"
| "dec_lt (Dec a) (DInf pos) = Inr pos"
| "dec_lt (DInf pos) (Dec b) = Inr (\<not> pos)"
| "dec_lt (DInf p) (DInf q) = Inr (\<not> p \<and> q)"
| "dec_lt a b = Inl (Raise InvalidOperation ''comparison involving NaN'')"

text \<open>\<open>sep.join(parts)\<close>.\<close>

fun str_join :: "string \<Rightarrow> string list \<Rightarrow> string" where
  "str_join sep [] = []"
| "str_join sep [p] = p"
| "str_join sep (p # q # ps) = p @ sep @ str_join sep (q # ps)"

text \<open>\<open>d.get(k)\<close> for a key taken from the configuration.\<close>

fun dict_get :: "pydict \<Rightarrow> pyval \<Rightarrow> exn + pyval" where
  "dict_get d (PStr k) = Inr (case d k of Some v \<Rightarrow> v | None \<Rightarrow> PNone)"
| "dict_get d (PList xs) = Inl (Raise TypeError ''unhashable type: list'')"
| "dict_get d k = Inr PNone"

text \<open>\<open>kwargs.get(k)\<close>: \<open>None\<close> when the key is absent.\<close>

definition kw_get :: "pydict \<Rightarrow> string \<Rightarrow> pyval" where
  "kw_get kwargs k = (case kwargs k of Some v \<Rightarrow> v | None \<Rightarrow> PNone)"

text \<open>What an \<open>except (C1, C2)\<close> clause does to the outcome of its \<open>try\<close> block.\<close>

definition except_classes :: "exn_class list \<Rightarrow> 'a \<Rightarrow> exn + 'a \<Rightarrow> exn + 'a" where
  "except_classes cs handler body =
     (case body of
        Inl e \<Rightarrow> if exn_is cs e then Inr handler else Inl e
      | Inr v \<Rightarrow> Inr v)"


section \<open>Structural validation (validator.py)\<close>

record ValidationRule =
  vr_field :: string
  vr_rule_type :: string
  vr_kwargs :: pydict
  vr_message :: pyval

definition ValidationRule_init :: "string \<Rightarrow> string \<Rightarrow> pydict \<Rightarrow> ValidationRule" where
  "ValidationRule_init fld kind kwargs =
     \<lparr>vr_field = fld, vr_rule_type = kind, vr_kwargs = kwargs,
      vr_message = (case kwargs ''message'' of
                      Some m \<Rightarrow> m
                    | None \<Rightarrow> PStr (fld @ '' failed '' @ kind))\<rparr>"

text \<open>A validator returns the pair \<open>(is_valid, error_message)\<close>.\<close>

type_synonym verdict = "bool \<times> pyval"

definition required :: "pylib \<Rightarrow> pyval \<Rightarrow> pyval \<Rightarrow> pydict \<Rightarrow> exn + verdict" where
  "required lib val message kwargs =
     (case val of
        PNone \<Rightarrow> Inr (False, message)
      | PStr s \<Rightarrow> if str_strip lib s = [] then Inr (False, message) else Inr (True, PNone)
      | _ \<Rightarrow> Inr (True, PNone))"

definition email_pattern :: string where
  "email_pattern = ''^[^@]+@[^@]+'' @ CHR 0x5C # ''.[^@]+$''"

text \<open>
  The default of \<open>expected_type\<close> is the type object \<open>str\<close>, which equals none of the
  four names, as does an absent key here.
\<close>

definition type_check :: "pylib \<Rightarrow> pyval \<Rightarrow> pyval \<Rightarrow> pydict \<Rightarrow> exn + verdict" where
  "type_check lib val message kwargs =
     except_classes [ValueError, TypeError] (False, message)
       (let expected_type = kwargs ''expected_type'' in
        if expected_type = Some (PStr ''integer'') then
          (case py_int lib val of Inl e \<Rightarrow> Inl e | Inr i \<Rightarrow> Inr (True, PNone))
        else if expected_type = Some (PStr ''decimal'') then
          (case Decimal lib val of Inl e \<Rightarrow> Inl e | Inr d \<Rightarrow> Inr (True, PNone))
        else if expected_type = Some (PStr ''date'') then
          (case fromisoformat lib (py_str lib val) of
             Inl e \<Rightarrow> Inl e | Inr d \<Rightarrow> Inr (True, PNone))
        else if expected_type = Some (PStr ''email'') then
          (case re_match lib (PStr email_pattern) (py_str lib val) of
             Inl e \<Rightarrow> Inl e
           | Inr m \<Rightarrow> if \<not> m then Inr (False, message) else Inr (True, PNone))
        else Inr (True, PNone))"

text \<open>
  The body of the \<open>try\<close> block of \<open>_range_check\<close>: \<open>None\<close> is replaced by
  \<open>Decimal('0')\<close>, and each bound is converted through its string.
\<close>

definition range_check_body :: "pylib \<Rightarrow> pyval \<Rightarrow> pyval \<Rightarrow> pydict \<Rightarrow> exn + verdict" where
  "range_check_body lib val message kwargs =
     (case (if val \<noteq> PNone then Decimal lib val else Inr (Dec 0)) of
        Inl e \<Rightarrow> Inl e
      | Inr v \<Rightarrow>
          let min_val = kw_get kwargs ''min_value'';
              max_val = kw_get kwargs ''max_value'';
              below =
                (if min_val \<noteq> PNone then
                   (case Decimal lib (PStr (py_str lib min_val)) of
                      Inl e \<Rightarrow> Inl e | Inr lo \<Rightarrow> dec_lt v lo)
                 else Inr False)
          in case below of
               Inl e \<Rightarrow> Inl e
             | Inr True \<Rightarrow> Inr (False, message)
             | Inr False \<Rightarrow>
                 (case (if max_val \<noteq> PNone then
                          (case Decimal lib (PStr (py_str lib max_val)) of
                             Inl e \<Rightarrow> Inl e | Inr hi \<Rightarrow> dec_lt hi v)
                        else Inr False) of
                    Inl e \<Rightarrow> Inl e
                  | Inr True \<Rightarrow> Inr (False, message)
                  | Inr False \<Rightarrow> Inr (True, PNone)))"

definition range_check :: "pylib \<Rightarrow> pyval \<Rightarrow> pyval \<Rightarrow> pydict \<Rightarrow> exn + verdict" where
  "range_check lib val message kwargs =
     except_classes [ValueError, TypeError] (False, message)
       (range_check_body lib val message kwargs)"

definition enum_check :: "pylib \<Rightarrow> pyval \<Rightarrow> pyval \<Rightarrow> pydict \<Rightarrow> exn + verdict" where
  "enum_check lib val message kwargs =
     (case py_iter (case kwargs ''values'' of Some a \<Rightarrow> a | None \<Rightarrow> PList []) of
        Inl e \<Rightarrow> Inl e
      | Inr allowed \<Rightarrow>
          if str_upper lib (py_str lib val)
               \<notin> set (map (\<lambda>v. str_upper lib (py_str lib v)) allowed)
          then Inr (False, message) else Inr (True, PNone))"

definition regex_check :: "pylib \<Rightarrow> pyval \<Rightarrow> pyval \<Rightarrow> pydict \<Rightarrow> exn + verdict" where
  "regex_check lib val message kwargs =
     (let pat = kw_get kwargs ''pattern'' in
      if truthy pat then
        (case re_match lib pat (py_str lib val) of
           Inl e \<Rightarrow> Inl e
         | Inr m \<Rightarrow> if \<not> m then Inr (False, message) else Inr (True, PNone))
      else Inr (True, PNone))"

text \<open>
  The default of \<open>max_length\<close> is \<open>float('inf')\<close>, which no length exceeds.  The \<open>or\<close>
  evaluates its second comparison only when the first is false.
\<close>

definition length_check :: "pylib \<Rightarrow> pyval \<Rightarrow> pyval \<Rightarrow> pydict \<Rightarrow> exn + verdict" where
  "length_check lib val message kwargs =
     (let val_str = (if val \<noteq> PNone then py_str lib val else [])
      in case int_lt (int (length val_str))
                (case kwargs ''min_length'' of Some m \<Rightarrow> m | None \<Rightarrow> PInt 0) of
           Inl e \<Rightarrow> Inl e
         | Inr True \<Rightarrow> Inr (False, message)
         | Inr False \<Rightarrow>
             (case (case kwargs ''max_length'' of
                      Some m \<Rightarrow> int_gt (int (length val_str)) m
                    | None \<Rightarrow> Inr False) of
                Inl e \<Rightarrow> Inl e
              | Inr True \<Rightarrow> Inr (False, message)
              | Inr False \<Rightarrow> Inr (True, PNone)))"

definition date_format_check :: "pylib \<Rightarrow> pyval \<Rightarrow> pyval \<Rightarrow> pydict \<Rightarrow> exn + verdict" where
  "date_format_check lib val message kwargs =
     (if val = PNone then Inr (True, PNone)
      else except_classes [ValueError] (False, message)
             (case fromisoformat lib (py_str lib val) of
                Inl e \<Rightarrow> Inl e | Inr d \<Rightarrow> Inr (True, PNone)))"

text \<open>The registry \<open>ValidationRule.VALIDATORS\<close>.\<close>

definition VALIDATORS ::
  "pylib \<Rightarrow> string \<rightharpoonup> (pyval \<Rightarrow> pyval \<Rightarrow> pydict \<Rightarrow> exn + verdict)" where
  "VALIDATORS lib = map_of
     [(''required'', required lib),
      (''type'', type_check lib),
      (''range'', range_check lib),
      (''enum'', enum_check lib),
      (''regex'', regex_check lib),
      (''length'', length_check lib),
      (''date_format'', date_format_check lib)]"

text \<open>\<open>ValidationRule.validate\<close>.\<close>

definition ValidationRule_validate :: "pylib \<Rightarrow> ValidationRule \<Rightarrow> pyval \<Rightarrow> exn + verdict" where
  "ValidationRule_validate lib self val =
     (case VALIDATORS lib (vr_rule_type self) of
        None \<Rightarrow> Inr (True, PNone)
      | Some validator_func \<Rightarrow> validator_func val (vr_message self) (vr_kwargs self))"

text \<open>
  \<open>RowValidator.validate\<close>: the loop over the rules, with the list \<open>errors\<close> as
  accumulator.
\<close>

fun RowValidator_loop ::
  "pylib \<Rightarrow> pydict \<Rightarrow> ValidationRule list \<Rightarrow> violation list \<Rightarrow> exn + violation list" where
  "RowValidator_loop lib canonical [] errors = Inr errors"
| "RowValidator_loop lib canonical (rule # rules) errors =
     (case canonical (vr_field rule) of
        None \<Rightarrow> RowValidator_loop lib canonical rules errors
      | Some val \<Rightarrow>
          (case ValidationRule_validate lib rule val of
             Inl e \<Rightarrow> Inl e
           | Inr (is_valid, error_msg) \<Rightarrow>
               if \<not> is_valid then
                 RowValidator_loop lib canonical rules
                   (errors @
                    [[(''field'', PStr (vr_field rule)),
                      (''rule'', PStr (vr_rule_type rule)),
                      (''message'', if truthy error_msg then error_msg else vr_message rule)]])
               else RowValidator_loop lib canonical rules errors))"

definition RowValidator_validate ::
  "pylib \<Rightarrow> ValidationRule list \<Rightarrow> pydict \<Rightarrow> exn + violation list" where
  "RowValidator_validate lib rules canonical = RowValidator_loop lib canonical rules []"


section \<open>Cross-field validation (cross_field_validator.py)\<close>

record CrossFieldRule =
  cf_fields :: "string list"
  cf_rule_type :: string
  cf_kwargs :: pydict
  cf_message :: pyval

definition CrossFieldRule_init :: "string list \<Rightarrow> string \<Rightarrow> pydict \<Rightarrow> CrossFieldRule" where
  "CrossFieldRule_init flds kind kwargs =
     \<lparr>cf_fields = flds, cf_rule_type = kind, cf_kwargs = kwargs,
      cf_message = (case kwargs ''message'' of
                      Some m \<Rightarrow> m
                    | None \<Rightarrow> PStr ''Cross-field rule failed'')\<rparr>"

text \<open>
  The loop of \<open>_validate_formula\<close> that fills \<open>field_values\<close>: a value that is not
  \<open>None\<close> is stored as \<open>float(val)\<close>, or as it is when the conversion raises
  \<open>ValueError\<close> or \<open>TypeError\<close>.
\<close>

fun formula_field_values :: "pylib \<Rightarrow> pydict \<Rightarrow> string list \<Rightarrow> pydict \<Rightarrow> exn + pydict" where
  "formula_field_values lib canonical [] field_values = Inr field_values"
| "formula_field_values lib canonical (f # fs) field_values =
     (let val = kw_get canonical f in
      if val \<noteq> PNone then
        (case py_float lib val of
           Inr x \<Rightarrow> formula_field_values lib canonical fs (field_values(f \<mapsto> x))
         | Inl e \<Rightarrow>
             if exn_is [ValueError, TypeError] e
             then formula_field_values lib canonical fs (field_values(f \<mapsto> val))
             else Inl e)
      else formula_field_values lib canonical fs field_values)"

text \<open>The outcome of the \<open>try\<close> block before the test of the result.\<close>

definition formula_eval :: "pylib \<Rightarrow> CrossFieldRule \<Rightarrow> pydict \<Rightarrow> exn + pyval" where
  "formula_eval lib self canonical =
     (case formula_field_values lib canonical (cf_fields self) Map.empty of
        Inl e \<Rightarrow> Inl e
      | Inr field_values \<Rightarrow>
          py_eval lib (case cf_kwargs self ''formula'' of Some f \<Rightarrow> f | None \<Rightarrow> PStr [])
            field_values)"

text \<open>
  \<open>CrossFieldRule._validate_formula\<close>.  The clause \<open>except Exception\<close> logs a warning and
  falls through to \<open>return None\<close>.
\<close>

definition validate_formula :: "pylib \<Rightarrow> CrossFieldRule \<Rightarrow> pydict \<Rightarrow> violation option" where
  "validate_formula lib self canonical =
     (case formula_eval lib self canonical of
        Inl e \<Rightarrow> None
      | Inr result \<Rightarrow>
          if \<not> truthy result then
            Some [(''fields'', PStr (str_join '','' (cf_fields self))),
                  (''rule'', PStr ''formula''),
                  (''message'', cf_message self)]
          else None)"

definition validate_dependency ::
  "pylib \<Rightarrow> CrossFieldRule \<Rightarrow> pydict \<Rightarrow> exn + violation option" where
  "validate_dependency lib self canonical =
     (let condition_field = kw_get (cf_kwargs self) ''condition_field'';
          condition_value = kw_get (cf_kwargs self) ''condition_value'';
          required_field = kw_get (cf_kwargs self) ''required_field''
      in case dict_get canonical condition_field of
           Inl e \<Rightarrow> Inl e
         | Inr cv \<Rightarrow>
             if py_eq cv condition_value then
               (case dict_get canonical required_field of
                  Inl e \<Rightarrow> Inl e
                | Inr rv \<Rightarrow>
                    if \<not> truthy rv then
                      Inr (Some [(''fields'', PStr (py_str lib condition_field @ '','' @
                                                   py_str lib required_field)),
                                 (''rule'', PStr ''dependency''),
                                 (''message'', cf_message self)])
                    else Inr None)
             else Inr None)"

definition validate_mutual_exclusion :: "CrossFieldRule \<Rightarrow> pydict \<Rightarrow> violation option" where
  "validate_mutual_exclusion self canonical =
     (let set_fields = filter (\<lambda>f. truthy (kw_get canonical f)) (cf_fields self) in
      if length set_fields > 1 then
        Some [(''fields'', PStr (str_join '','' (cf_fields self))),
              (''rule'', PStr ''mutual_exclusion''),
              (''message'', cf_message self)]
      else None)"

text \<open>\<open>CrossFieldRule.validate\<close>.\<close>

definition CrossFieldRule_validate ::
  "pylib \<Rightarrow> CrossFieldRule \<Rightarrow> pydict \<Rightarrow> exn + violation option" where
  "CrossFieldRule_validate lib self canonical =
     (if cf_rule_type self = ''formula'' then Inr (validate_formula lib self canonical)
      else if cf_rule_type self = ''dependency'' then validate_dependency lib self canonical
      else if cf_rule_type self = ''mutual_exclusion''
        then Inr (validate_mutual_exclusion self canonical)
      else Inr None)"

text \<open>
  \<open>CrossFieldValidator.validate\<close>.  A violation is a dictionary with three keys, hence
  truthy: \<open>if error\<close> holds exactly when the rule returned one.
\<close>

fun CrossFieldValidator_loop ::
  "pylib \<Rightarrow> pydict \<Rightarrow> CrossFieldRule list \<Rightarrow> violation list \<Rightarrow> exn + violation list" where
  "CrossFieldValidator_loop lib canonical [] errors = Inr errors"
| "CrossFieldValidator_loop lib canonical (rule # rules) errors =
     (case CrossFieldRule_validate lib rule canonical of
        Inl e \<Rightarrow> Inl e
      | Inr None \<Rightarrow> CrossFieldValidator_loop lib canonical rules errors
      | Inr (Some error) \<Rightarrow> CrossFieldValidator_loop lib canonical rules (errors @ [error]))"

definition CrossFieldValidator_validate ::
  "pylib \<Rightarrow> CrossFieldRule list \<Rightarrow> pydict \<Rightarrow> exn + violation list" where
  "CrossFieldValidator_validate lib rules canonical =
     CrossFieldValidator_loop lib canonical rules []"


section \<open>Semantic validation (semantic_validator.py)\<close>










section \<open>The validation pipeline (validation_pipeline.py)\<close>




section \<open>Reconciliation (reconciler.py)\<close>

text \<open>The decimal numeral of a natural number, as an f-string formats an index.\<close>

function string_of_nat :: "nat \<Rightarrow> string" where
  "string_of_nat n =
     (if n < 10 then [''0123456789'' ! n]
      else string_of_nat (n div 10) @ [''0123456789'' ! (n mod 10)])"
  by pat_completeness auto
termination
  by (relation "measure id") auto











section \<open>The metadata store (metadata_store.py)\<close>

record FileMeta =
  fm_file_id :: string
  fm_filename :: string
  fm_path :: string
  fm_file_type :: string
  fm_size_bytes :: nat
  fm_created_at :: datetime
  fm_processed_at :: "datetime option"
  fm_status :: FileStatus
  fm_raw_copy_path :: "string option"
  fm_error_message :: "string option"
  fm_row_count :: int
  fm_valid_rows :: int
  fm_flagged_rows :: int
  fm_error_rows :: int

text \<open>
  The tables \<open>files\<close> and \<open>rows\<close>, each a list of records in the order of their
  insertion, with the primary key in front.  \<open>INSERT OR REPLACE\<close> deletes the record
  that has the key, if there is one, and inserts the new record.  The values of a row
  pass through JSON unchanged.  Failures of the storage layer are not modelled.
\<close>

record MetadataStore =
  files :: "(string \<times> FileMeta) list"
  rows :: "(string \<times> Row) list"

definition empty_store :: MetadataStore where
  "empty_store = \<lparr>files = [], rows = []\<rparr>"

definition insert_or_replace :: "string \<Rightarrow> 'v \<Rightarrow> (string \<times> 'v) list \<Rightarrow> (string \<times> 'v) list" where
  "insert_or_replace k v table = AList.delete k table @ [(k, v)]"

definition insert_file :: "MetadataStore \<Rightarrow> FileMeta \<Rightarrow> MetadataStore" where
  "insert_file self file_meta =
     self\<lparr>files := insert_or_replace (fm_file_id file_meta) file_meta (files self)\<rparr>"

definition get_file :: "MetadataStore \<Rightarrow> string \<Rightarrow> FileMeta option" where
  "get_file self fid = map_of (files self) fid"

definition insert_row :: "MetadataStore \<Rightarrow> Row \<Rightarrow> MetadataStore" where
  "insert_row self row = self\<lparr>rows := insert_or_replace (row_id row) row (rows self)\<rparr>"

definition get_rows_by_file :: "MetadataStore \<Rightarrow> string \<Rightarrow> Row list" where
  "get_rows_by_file self fid =
     sort_key line_number (filter (\<lambda>r. file_id r = fid) (map snd (rows self)))"


section \<open>Ingestion (local_fs.py, format_detector.py, ingestion_pipeline.py)\<close>

text \<open>
  A file of the input directory as the pipeline sees it: its name, resolved path and
  suffix (as \<open>pathlib\<close> gives them), whether it exists and is a regular file, and its
  bytes.
\<close>

record SourceFile =
  sf_name :: string
  sf_resolved :: string
  sf_suffix :: string
  sf_exists :: bool
  sf_is_file :: bool
  sf_bytes :: string

text \<open>
  \<open>LocalFSConnector.fetch\<close>.  The archive copy that \<open>archive_raw_file\<close> writes is a
  file outside the store and is not modelled.
\<close>

definition fetch :: "pylib \<Rightarrow> string \<Rightarrow> datetime \<Rightarrow> SourceFile \<Rightarrow> exn + FileMeta" where
  "fetch lib archive_dir now file_path =
     (if \<not> sf_exists file_path then
        Inl (Raise FileNotFoundError (''File not found: '' @ sf_resolved file_path))
      else
        let file_hash = sha256_hexdigest lib (sf_bytes file_path);
            stripped = str_lower lib (dropWhile (\<lambda>c. c = CHR ''.'') (sf_suffix file_path))
        in Inr \<lparr>fm_file_id = file_hash,
                 fm_filename = sf_name file_path,
                 fm_path = sf_resolved file_path,
                 fm_file_type = (if stripped = [] then ''unknown'' else stripped),
                 fm_size_bytes = length (sf_bytes file_path),
                 fm_created_at = now,
                 fm_processed_at = None,
                 fm_status = FS_PENDING,
                 fm_raw_copy_path =
                   Some (archive_dir @ ''/'' @ file_hash @ sf_suffix file_path),
                 fm_error_message = None,
                 fm_row_count = 0, fm_valid_rows = 0, fm_flagged_rows = 0,
                 fm_error_rows = 0\<rparr>)"

definition EXTENSION_MAP :: "(string \<times> string) list" where
  "EXTENSION_MAP =
     [(''.csv'', ''csv''), (''.tsv'', ''tsv''), (''.xlsx'', ''xlsx''), (''.xls'', ''xls''),
      (''.json'', ''json''), (''.jsonl'', ''jsonl''), (''.ndjson'', ''jsonl''),
      (''.xml'', ''xml''), (''.pdf'', ''pdf''), (''.txt'', ''txt'')]"

definition MAGIC_BYTES :: "(string \<times> string) list" where
  "MAGIC_BYTES =
     [([CHR ''P'', CHR ''K'', CHR 0x03, CHR 0x04], ''xlsx''),
      (''%PDF'', ''pdf''), (''<?xml'', ''xml''), (''<?XML'', ''xml''),
      (''['', ''json''), (''{'', ''json'')]"

text \<open>
  \<open>FormatDetector.detect\<close>, for a file that can be read: by extension, then by the
  first ten bytes, then by the first line.
\<close>

definition detect :: "pylib \<Rightarrow> SourceFile \<Rightarrow> string" where
  "detect lib file_path =
     (case map_of EXTENSION_MAP (str_lower lib (sf_suffix file_path)) of
        Some detected \<Rightarrow> detected
      | None \<Rightarrow>
          let magic = take 10 (sf_bytes file_path) in
          (case filter (\<lambda>(signature, fmt). take (length signature) magic = signature)
                  MAGIC_BYTES of
             (signature, fmt) # others \<Rightarrow> fmt
           | [] \<Rightarrow>
               let first_line =
                 takeWhile (\<lambda>c. c \<noteq> CHR 0x0A \<and> c \<noteq> CHR 0x0D) (sf_bytes file_path)
               in if CHR 0x09 \<in> set first_line then ''tsv''
                  else if CHR '','' \<in> set first_line then ''csv''
                  else ''txt''))"

text \<open>
  The decoders are collaborators of the pipeline.  \<open>parser fmt f\<close> is what iterating
  \<open>parser.parse(f)\<close> of the decoder registered for \<open>fmt\<close> gives: the chunks it yields
  and, if it then raises, the exception.
\<close>

type_synonym parser = "string \<Rightarrow> SourceFile \<Rightarrow> pydict list list \<times> exn option"

definition PARSERS :: "string list" where
  "PARSERS = [''csv'', ''tsv'', ''xlsx'', ''json'', ''jsonl'', ''xml'']"

record IngestionPipeline =
  archive_dir :: string
  chunk_size :: int

text \<open>
  Both \<open>_parse_and_create_rows\<close> and \<open>_chunk_rows\<close> contain \<open>yield\<close>: calling them
  runs none of their body and returns a generator.  A generator is a suspended call;
  its body runs when the caller iterates over it.  The generator of
  \<open>_parse_and_create_rows\<close> refers to the object \<open>file_meta\<close>, which it reads when it
  runs, that is, as \<open>process_file\<close> left it.
\<close>

datatype row_iterator =
    ParseRows SourceFile string FileMeta
  | ChunkRows "Row list"

definition generate_row_id :: "string \<Rightarrow> nat \<Rightarrow> string" where
  "generate_row_id fid line = fid @ ''_'' @ string_of_nat line"

definition new_row :: "FileMeta \<Rightarrow> nat \<Rightarrow> pydict \<Rightarrow> Row" where
  "new_row file_meta line raw =
     \<lparr>row_id = generate_row_id (fm_file_id file_meta) line,
      file_id = fm_file_id file_meta,
      line_number = int line,
      raw_data = raw,
      normalized_data = Map.empty,
      canonical_data = Map.empty,
      status = PENDING,
      validation_errors = [],
      mapping_confidence = Map.empty,
      ai_suggestions = Map.empty,
      approved_by = None,
      approved_at = None\<rparr>"

text \<open>The rows of one chunk, numbered from \<open>line_no + 1\<close>, the counter \<open>line_number\<close> of the source.\<close>

fun rows_of_chunk :: "FileMeta \<Rightarrow> nat \<Rightarrow> pydict list \<Rightarrow> Row list" where
  "rows_of_chunk file_meta line_no [] = []"
| "rows_of_chunk file_meta line_no (raw # chunk) =
     new_row file_meta (Suc line_no) raw # rows_of_chunk file_meta (Suc line_no) chunk"

text \<open>What iterating over a generator to its end leaves behind.\<close>

record iteration =
  it_store :: MetadataStore
  it_chunks :: "Row list list"
  it_file_meta :: "FileMeta option"
  it_raised :: "exn option"

text \<open>
  The loop of \<open>_parse_and_create_rows\<close> over the chunks of the decoder, and what follows
  it: the row count is written to the file record only when the decoder ends without
  an exception.
\<close>

fun parse_chunks ::
  "FileMeta \<Rightarrow> exn option \<Rightarrow> nat \<Rightarrow> pydict list list \<Rightarrow> MetadataStore \<Rightarrow> Row list list
   \<Rightarrow> iteration" where
  "parse_chunks file_meta failure line_no [] store yielded =
     (case failure of
        Some e \<Rightarrow>
          \<lparr>it_store = store, it_chunks = yielded, it_file_meta = Some file_meta,
           it_raised = Some e\<rparr>
      | None \<Rightarrow>
          let file_meta' = file_meta\<lparr>fm_row_count := int line_no\<rparr> in
          \<lparr>it_store = insert_file store file_meta', it_chunks = yielded,
           it_file_meta = Some file_meta', it_raised = None\<rparr>)"
| "parse_chunks file_meta failure line_no (chunk # chunks) store yielded =
     (let row_chunk = rows_of_chunk file_meta line_no chunk in
      parse_chunks file_meta failure (line_no + length chunk) chunks
        (foldl insert_row store row_chunk) (yielded @ [row_chunk]))"

text \<open>\<open>rows[i:i + chunk_size] for i in range(0, len(rows), chunk_size)\<close>, for a positive size.\<close>

function chunks_of :: "nat \<Rightarrow> 'a list \<Rightarrow> 'a list list" where
  "chunks_of n xs =
     (if n = 0 \<or> xs = [] then [] else take n xs # chunks_of n (drop n xs))"
  by pat_completeness auto
termination
  by (relation "measure (\<lambda>(n, xs). length xs)") auto

definition iterate ::
  "parser \<Rightarrow> IngestionPipeline \<Rightarrow> MetadataStore \<Rightarrow> row_iterator \<Rightarrow> iteration" where
  "iterate parser self store it =
     (case it of
        ParseRows file_path file_format file_meta \<Rightarrow>
          if file_format \<notin> set PARSERS then
            \<lparr>it_store = store, it_chunks = [], it_file_meta = Some file_meta,
             it_raised = Some (Raise ValueError (''Unsupported format: '' @ file_format))\<rparr>
          else
            (case parser file_format file_path of
               (chunks, failure) \<Rightarrow> parse_chunks file_meta failure 0 chunks store [])
      | ChunkRows existing_rows \<Rightarrow>
          if chunk_size self = 0 then
            \<lparr>it_store = store, it_chunks = [], it_file_meta = None,
             it_raised = Some (Raise ValueError ''range() arg 3 must not be zero'')\<rparr>
          else
            \<lparr>it_store = store,
             it_chunks = (if chunk_size self < 0 then []
                          else chunks_of (nat (chunk_size self)) existing_rows),
             it_file_meta = None, it_raised = None\<rparr>)"

text \<open>
  \<open>IngestionPipeline.process_file\<close>, with the store it leaves.  Inside the \<open>try\<close> block
  the call of \<open>_parse_and_create_rows\<close> only creates the generator, so nothing there
  raises and the handler that would store the status \<open>FAILED\<close> is not entered.
\<close>

definition process_file ::
  "pylib \<Rightarrow> IngestionPipeline \<Rightarrow> MetadataStore \<Rightarrow> datetime \<Rightarrow> SourceFile
   \<Rightarrow> MetadataStore \<times> (exn + FileMeta \<times> row_iterator)" where
  "process_file lib self store now file_path =
     (case fetch lib (archive_dir self) now file_path of
        Inl e \<Rightarrow> (store, Inl e)
      | Inr file_meta \<Rightarrow>
          (case get_file store (fm_file_id file_meta) of
             Some existing_meta \<Rightarrow>
               if fm_status existing_meta = FS_SUCCESS then
                 (store, Inr (file_meta,
                              ChunkRows (get_rows_by_file store (fm_file_id file_meta))))
               else
                 (let processing = file_meta\<lparr>fm_status := FS_PROCESSING\<rparr>;
                      store1 = insert_file store processing;
                      file_format = detect lib file_path;
                      done = processing\<lparr>fm_status := FS_SUCCESS, fm_processed_at := Some now\<rparr>
                  in (insert_file store1 done,
                      Inr (done, ParseRows file_path file_format done)))
           | None \<Rightarrow>
               (let processing = file_meta\<lparr>fm_status := FS_PROCESSING\<rparr>;
                    store1 = insert_file store processing;
                    file_format = detect lib file_path;
                    done = processing\<lparr>fm_status := FS_SUCCESS, fm_processed_at := Some now\<rparr>
                in (insert_file store1 done,
                    Inr (done, ParseRows file_path file_format done)))))"

record BatchResult =
  br_batch_id :: string
  br_started_at :: datetime
  br_completed_at :: "datetime option"
  br_file_results :: "FileMeta list"
  br_total_rows :: int
  br_valid_rows :: int
  br_flagged_rows :: int
  br_error_rows :: int
  br_status :: FileStatus
  br_errors :: "string list"

text \<open>\<open>BatchResult(batch_id=..., started_at=...)\<close> with the defaults of the dataclass.\<close>

definition BatchResult_init :: "string \<Rightarrow> datetime \<Rightarrow> BatchResult" where
  "BatchResult_init batch_id now =
     \<lparr>br_batch_id = batch_id, br_started_at = now, br_completed_at = None,
      br_file_results = [], br_total_rows = 0, br_valid_rows = 0, br_flagged_rows = 0,
      br_error_rows = 0, br_status = FS_PROCESSING, br_errors = []\<rparr>"

text \<open>
  The body of the loop of \<open>process_directory\<close> for one path.  The file record is
  appended to \<open>file_results\<close> before the rows are counted; it is the object that the
  generator updates.  The rows of the chunks yielded before an exception are counted.
\<close>

definition process_path ::
  "pylib \<Rightarrow> parser \<Rightarrow> IngestionPipeline \<Rightarrow> datetime \<Rightarrow> MetadataStore \<times> BatchResult
   \<Rightarrow> SourceFile \<Rightarrow> MetadataStore \<times> BatchResult" where
  "process_path lib parser self now acc file_path =
     (case acc of (store, batch_result) \<Rightarrow>
      if \<not> sf_is_file file_path then (store, batch_result)
      else
        (case process_file lib self store now file_path of
           (store1, Inl e) \<Rightarrow>
             (store1, batch_result\<lparr>br_errors := br_errors batch_result @ [exn_message e]\<rparr>)
         | (store1, Inr (file_meta, row_iter)) \<Rightarrow>
             let it = iterate parser self store1 row_iter;
                 counted = batch_result
                   \<lparr>br_file_results := br_file_results batch_result @
                      [case it_file_meta it of Some m \<Rightarrow> m | None \<Rightarrow> file_meta],
                    br_total_rows := br_total_rows batch_result
                      + int (length (concat (it_chunks it)))\<rparr>
             in (it_store it,
                 case it_raised it of
                   None \<Rightarrow> counted
                 | Some e \<Rightarrow> counted\<lparr>br_errors := br_errors counted @ [exn_message e]\<rparr>)))"

text \<open>
  \<open>IngestionPipeline.process_directory\<close>; \<open>paths\<close> is what \<open>input_dir.glob\<close> finds, and the
  batch identifier and the clock reading are inputs.
\<close>

definition process_directory ::
  "pylib \<Rightarrow> parser \<Rightarrow> IngestionPipeline \<Rightarrow> MetadataStore \<Rightarrow> string \<Rightarrow> datetime
   \<Rightarrow> SourceFile list \<Rightarrow> MetadataStore \<times> BatchResult" where
  "process_directory lib parser self store batch_id now paths =
     (let batch_result = BatchResult_init batch_id now
      in if paths = [] then (store, batch_result)
         else
           (case foldl (process_path lib parser self now) (store, batch_result) paths of
              (store', result) \<Rightarrow>
                (store',
                 result\<lparr>br_completed_at := Some now,
                        br_status := (if br_errors result = [] then FS_SUCCESS
                                      else FS_PARTIAL_SUCCESS)\<rparr>)))"


section \<open>A reference instance of the library primitives\<close>

text \<open>
  To run the model on concrete inputs the primitives need values.  The instance
  \<open>ref_lib\<close> computes each primitive on a small, explicitly delimited set of inputs, where
  it agrees with the Python library, and answers \<open>not_covered\<close> (or a placeholder
  string) elsewhere; it is used on covered inputs only.
  \<^item> Numerals: an optional sign, digits, and for \<open>float\<close> and \<open>Decimal\<close> an optional
    fraction, with surrounding blanks; a string with a character that no numeral of
    Python contains is rejected as Python rejects it.  \<open>float\<close> is covered where the
    numeral denotes a binary fraction that a double holds exactly.
  \<^item> \<open>str\<close>: \<open>None\<close>, booleans, integers and strings.
  \<^item> Regular expressions: patterns made of letters, digits, blanks and underscores,
    which match literally.
  \<^item> \<open>fromisoformat\<close>: \<open>YYYY-MM-DD\<close> and \<open>YYYY-MM-DD?HH:MM:SS\<close>; a string with no digit
    is rejected.
  \<^item> \<open>upper\<close>, \<open>lower\<close>, \<open>strip\<close>: ASCII.
  \<^item> \<open>eval\<close>: products of names, and the comparison \<open>==\<close> of two such products, written
    with single blanks around \<open>*\<close> and \<open>==\<close>.
  \<^item> The digests are replaced by the identity, an injective stand-in.
\<close>

definition not_covered :: "exn + 'a" where
  "not_covered = Inl (Raise OtherError ''input outside the reference library'')"

definition digit_value :: "char \<Rightarrow> nat option" where
  "digit_value c = map_of (zip ''0123456789'' [0, 1, 2, 3, 4, 5, 6, 7, 8, 9]) c"

definition is_digit :: "char \<Rightarrow> bool" where
  "is_digit c = (c \<in> set ''0123456789'')"

definition digits_value :: "string \<Rightarrow> nat option" where
  "digits_value s =
     (if s \<noteq> [] \<and> list_all is_digit s
      then Some (foldl (\<lambda>a c. 10 * a + (case digit_value c of Some d \<Rightarrow> d | None \<Rightarrow> 0)) 0 s)
      else None)"

definition unsigned_numeral :: "string \<Rightarrow> rat option" where
  "unsigned_numeral s =
     (let ip = takeWhile (\<lambda>c. c \<noteq> CHR ''.'') s;
          rest = dropWhile (\<lambda>c. c \<noteq> CHR ''.'') s
      in case rest of
           [] \<Rightarrow> map_option of_nat (digits_value ip)
         | dot # fp \<Rightarrow>
             if ip = [] \<and> fp = [] then None
             else (case (if ip = [] then Some 0 else digits_value ip,
                         if fp = [] then Some 0 else digits_value fp) of
                     (Some a, Some b) \<Rightarrow> Some (of_nat a + of_nat b / 10 ^ length fp)
                   | _ \<Rightarrow> None))"

definition signed_numeral :: "string \<Rightarrow> rat option" where
  "signed_numeral s =
     (case s of
        [] \<Rightarrow> None
      | c # r \<Rightarrow>
          if c = CHR ''-'' then map_option uminus (unsigned_numeral r)
          else if c = CHR ''+'' then unsigned_numeral r
          else unsigned_numeral s)"

definition is_space :: "char \<Rightarrow> bool" where
  "is_space c =
     (c \<in> set [CHR '' '', CHR 0x09, CHR 0x0A, CHR 0x0B, CHR 0x0C, CHR 0x0D,
               CHR 0x1C, CHR 0x1D, CHR 0x1E, CHR 0x1F])"

definition ref_strip :: "string \<Rightarrow> string" where
  "ref_strip s = rev (dropWhile is_space (rev (dropWhile is_space s)))"

definition ref_upper :: "string \<Rightarrow> string" where
  "ref_upper s =
     map (\<lambda>c. case map_of (zip ''abcdefghijklmnopqrstuvwxyz'' ''ABCDEFGHIJKLMNOPQRSTUVWXYZ'') c of
               Some u \<Rightarrow> u | None \<Rightarrow> c) s"

definition ref_lower :: "string \<Rightarrow> string" where
  "ref_lower s =
     map (\<lambda>c. case map_of (zip ''ABCDEFGHIJKLMNOPQRSTUVWXYZ'' ''abcdefghijklmnopqrstuvwxyz'') c of
               Some l \<Rightarrow> l | None \<Rightarrow> c) s"

text \<open>
  The characters that occur in some numeral accepted by \<open>int\<close>, \<open>float\<close> or \<open>Decimal\<close>
  beyond the plain ones (exponents, underscores, \<open>inf\<close>, \<open>infinity\<close>, \<open>nan\<close>, \<open>snan\<close>).
\<close>

definition plain_numeral_chars :: string where
  "plain_numeral_chars = ''0123456789.+-''"

definition other_numeral_chars :: string where
  "other_numeral_chars = ''_eEiInNfFtTyYaAsS''"

definition is_ascii :: "char \<Rightarrow> bool" where
  "is_ascii c = ((of_char c :: nat) < 128)"

text \<open>A rational that a double holds exactly: at most ten binary places, below \<open>2^40\<close>.\<close>

definition exact_double :: "rat \<Rightarrow> bool" where
  "exact_double q = (of_int \<lfloor>q * 1024\<rfloor> = q * 1024 \<and> \<bar>q\<bar> \<le> 1099511627776)"

definition ref_numeral ::
  "exn \<Rightarrow> string \<Rightarrow> exn + rat" where
  "ref_numeral rejected s =
     (let t = ref_strip s in
      if list_all (\<lambda>c. c \<in> set plain_numeral_chars) t then
        (case signed_numeral t of Some q \<Rightarrow> Inr q | None \<Rightarrow> Inl rejected)
      else if list_all is_ascii t
              \<and> list_ex (\<lambda>c. c \<notin> set plain_numeral_chars \<and> c \<notin> set other_numeral_chars) t
        then Inl rejected
      else not_covered)"

definition ref_Decimal :: "pyval \<Rightarrow> exn + decimal" where
  "ref_Decimal v =
     (case v of
        PNone \<Rightarrow> Inl (Raise TypeError ''conversion from NoneType to Decimal is not supported'')
      | PBool b \<Rightarrow> Inr (Dec (if b then 1 else 0))
      | PInt i \<Rightarrow> Inr (Dec (of_int i))
      | PFloat q \<Rightarrow> Inr (Dec q)
      | PStr s \<Rightarrow>
          (case ref_numeral (Raise InvalidOperation ''[<class decimal.ConversionSyntax>]'') s of
             Inl e \<Rightarrow> Inl e | Inr q \<Rightarrow> Inr (Dec q))
      | PList xs \<Rightarrow> not_covered)"

definition ref_float :: "pyval \<Rightarrow> exn + pyval" where
  "ref_float v =
     (case v of
        PNone \<Rightarrow> Inl (Raise TypeError
                        ''float() argument must be a string or a real number, not NoneType'')
      | PBool b \<Rightarrow> Inr (PFloat (if b then 1 else 0))
      | PInt i \<Rightarrow> if exact_double (of_int i) then Inr (PFloat (of_int i)) else not_covered
      | PFloat q \<Rightarrow> Inr (PFloat q)
      | PStr s \<Rightarrow>
          (case ref_numeral (Raise ValueError ''could not convert string to float'') s of
             Inl e \<Rightarrow> Inl e
           | Inr q \<Rightarrow> if exact_double q then Inr (PFloat q) else not_covered)
      | PList xs \<Rightarrow> Inl (Raise TypeError
                           ''float() argument must be a string or a real number, not list''))"

definition ref_int :: "pyval \<Rightarrow> exn + int" where
  "ref_int v =
     (case v of
        PNone \<Rightarrow> Inl (Raise TypeError ''int() argument must be a string or a real number'')
      | PBool b \<Rightarrow> Inr (if b then 1 else 0)
      | PInt i \<Rightarrow> Inr i
      | PFloat q \<Rightarrow> Inr (if 0 \<le> q then \<lfloor>q\<rfloor> else \<lceil>q\<rceil>)
      | PStr s \<Rightarrow>
          (if CHR ''.'' \<in> set (ref_strip s) \<and> list_all is_ascii s
                \<and> CHR ''_'' \<notin> set s
           then Inl (Raise ValueError ''invalid literal for int() with base 10'')
           else (case ref_numeral (Raise ValueError ''invalid literal for int() with base 10'') s of
                   Inl e \<Rightarrow> Inl e | Inr q \<Rightarrow> Inr \<lfloor>q\<rfloor>))
      | PList xs \<Rightarrow> Inl (Raise TypeError ''int() argument must be a string or a real number''))"

definition ref_str :: "pyval \<Rightarrow> string" where
  "ref_str v =
     (case v of
        PNone \<Rightarrow> ''None''
      | PBool b \<Rightarrow> (if b then ''True'' else ''False'')
      | PInt i \<Rightarrow> (if i < 0 then ''-'' @ string_of_nat (nat (- i)) else string_of_nat (nat i))
      | PFloat q \<Rightarrow> ''<float>''
      | PStr s \<Rightarrow> s
      | PList xs \<Rightarrow> ''<list>'')"

definition literal_pattern :: "string \<Rightarrow> bool" where
  "literal_pattern p =
     list_all (\<lambda>c. c \<in> set
        ''abcdefghijklmnopqrstuvwxyzABCDEFGHIJKLMNOPQRSTUVWXYZ0123456789 _'') p"

definition ref_re_search :: "string option \<Rightarrow> string \<Rightarrow> exn + bool" where
  "ref_re_search p s =
     (case p of
        None \<Rightarrow> Inl (Raise TypeError ''first argument must be string or compiled pattern'')
      | Some pat \<Rightarrow> if literal_pattern pat then Inr (str_contains pat s) else not_covered)"

definition ref_re_match :: "pyval \<Rightarrow> string \<Rightarrow> exn + bool" where
  "ref_re_match p s =
     (case p of
        PStr pat \<Rightarrow> if literal_pattern pat then Inr (take (length pat) s = pat) else not_covered
      | _ \<Rightarrow> Inl (Raise TypeError ''first argument must be string or compiled pattern''))"

definition days_in_month :: "nat \<Rightarrow> nat \<Rightarrow> nat" where
  "days_in_month y m =
     (if m = 2 then (if y mod 4 = 0 \<and> (y mod 100 \<noteq> 0 \<or> y mod 400 = 0) then 29 else 28)
      else if m \<in> {4, 6, 9, 11} then 30 else 31)"

definition ref_date :: "string \<Rightarrow> (nat \<times> nat \<times> nat) option" where
  "ref_date s =
     (if length s = 10 \<and> s ! 4 = CHR ''-'' \<and> s ! 7 = CHR ''-'' then
        (case (digits_value (take 4 s), digits_value (take 2 (drop 5 s)),
               digits_value (take 2 (drop 8 s))) of
           (Some y, Some m, Some d) \<Rightarrow>
             if 1 \<le> y \<and> 1 \<le> m \<and> m \<le> 12 \<and> 1 \<le> d \<and> d \<le> days_in_month y m
             then Some (y, m, d) else None
         | _ \<Rightarrow> None)
      else None)"

definition ref_time :: "string \<Rightarrow> (nat \<times> nat \<times> nat) option" where
  "ref_time s =
     (if length s = 8 \<and> s ! 2 = CHR '':'' \<and> s ! 5 = CHR '':'' then
        (case (digits_value (take 2 s), digits_value (take 2 (drop 3 s)),
               digits_value (take 2 (drop 6 s))) of
           (Some h, Some mi, Some sec) \<Rightarrow>
             if h < 24 \<and> mi < 60 \<and> sec < 60 then Some (h, mi, sec) else None
         | _ \<Rightarrow> None)
      else None)"

definition ref_fromisoformat :: "string \<Rightarrow> exn + datetime" where
  "ref_fromisoformat s =
     (if length s = 10 \<or> length s = 19 then
        (case (ref_date (take 10 s),
               if length s = 10 then Some (0, 0, 0) else ref_time (drop 11 s)) of
           (Some (y, m, d), Some (h, mi, sec)) \<Rightarrow>
             Inr \<lparr>dt_year = y, dt_month = m, dt_day = d,
                  dt_hour = h, dt_minute = mi, dt_second = sec\<rparr>
         | _ \<Rightarrow> if list_ex is_digit s then not_covered
                else Inl (Raise ValueError ''Invalid isoformat string''))
      else if list_ex is_digit s then not_covered
      else Inl (Raise ValueError ''Invalid isoformat string''))"

text \<open>\<open>s.split(sep)\<close> for a non-empty separator.\<close>

function split_on :: "string \<Rightarrow> string \<Rightarrow> string \<Rightarrow> string list" where
  "split_on sep cur s =
     (if s = [] then [rev cur]
      else if sep \<noteq> [] \<and> take (length sep) s = sep
        then rev cur # split_on sep [] (drop (length sep) s)
      else split_on sep (hd s # cur) (tl s))"
  by pat_completeness auto
termination
  by (relation "measure (\<lambda>(sep, cur, s). length s)") auto

definition python_keywords :: "string list" where
  "python_keywords =
     [''False'', ''None'', ''True'', ''and'', ''as'', ''assert'', ''async'', ''await'',
      ''break'', ''class'', ''continue'', ''def'', ''del'', ''elif'', ''else'', ''except'',
      ''finally'', ''for'', ''from'', ''global'', ''if'', ''import'', ''in'', ''is'',
      ''lambda'', ''nonlocal'', ''not'', ''or'', ''pass'', ''raise'', ''return'', ''try'',
      ''while'', ''with'', ''yield'']"

definition is_name :: "string \<Rightarrow> bool" where
  "is_name n =
     (n \<noteq> [] \<and> \<not> is_digit (hd n) \<and> n \<notin> set python_keywords
      \<and> list_all (\<lambda>c. c \<in> set
           ''abcdefghijklmnopqrstuvwxyzABCDEFGHIJKLMNOPQRSTUVWXYZ0123456789_'') n)"

definition ref_lookup :: "pydict \<Rightarrow> string \<Rightarrow> exn + pyval" where
  "ref_lookup env n =
     (if \<not> is_name n then not_covered
      else case env n of
             Some v \<Rightarrow> Inr v
           | None \<Rightarrow> Inl (Raise NameError
                           (''name '' @ CHR 0x27 # n @ CHR 0x27 # '' is not defined'')))"

definition ref_mul :: "pyval \<Rightarrow> pyval \<Rightarrow> exn + pyval" where
  "ref_mul a b =
     (case (a, b) of
        (PFloat x, PFloat y) \<Rightarrow> if exact_double (x * y) then Inr (PFloat (x * y)) else not_covered
      | (PInt x, PInt y) \<Rightarrow> Inr (PInt (x * y))
      | (PFloat x, PStr t) \<Rightarrow> Inl (Raise TypeError ''can not multiply sequence by non-int'')
      | (PStr t, PFloat y) \<Rightarrow> Inl (Raise TypeError ''can not multiply sequence by non-int'')
      | (PStr t, PStr u) \<Rightarrow> Inl (Raise TypeError ''can not multiply sequence by non-int'')
      | _ \<Rightarrow> not_covered)"

fun ref_product :: "pydict \<Rightarrow> pyval \<Rightarrow> string list \<Rightarrow> exn + pyval" where
  "ref_product env acc [] = Inr acc"
| "ref_product env acc (n # ns) =
     (case ref_lookup env n of
        Inl e \<Rightarrow> Inl e
      | Inr v \<Rightarrow> (case ref_mul acc v of Inl e \<Rightarrow> Inl e | Inr w \<Rightarrow> ref_product env w ns))"

definition ref_term :: "pydict \<Rightarrow> string \<Rightarrow> exn + pyval" where
  "ref_term env t =
     (case split_on '' * '' [] t of
        n # ns \<Rightarrow> (case ref_lookup env n of Inl e \<Rightarrow> Inl e | Inr v \<Rightarrow> ref_product env v ns)
      | [] \<Rightarrow> not_covered)"

definition ref_eval :: "pyval \<Rightarrow> pydict \<Rightarrow> exn + pyval" where
  "ref_eval formula env =
     (case formula of
        PStr f \<Rightarrow>
          (case split_on '' == '' [] f of
             [t] \<Rightarrow> ref_term env t
           | [l, r] \<Rightarrow>
               (case ref_term env l of
                  Inl e \<Rightarrow> Inl e
                | Inr a \<Rightarrow>
                    (case ref_term env r of
                       Inl e \<Rightarrow> Inl e
                     | Inr b \<Rightarrow> Inr (PBool (py_eq a b))))
           | _ \<Rightarrow> not_covered)
      | _ \<Rightarrow> Inl (Raise TypeError ''eval() arg 1 must be a string, bytes or code object''))"

definition ref_lib :: pylib where
  "ref_lib =
     \<lparr>re_search = ref_re_search, re_match = ref_re_match, py_int = ref_int,
      py_float = ref_float, Decimal = ref_Decimal, fromisoformat = ref_fromisoformat,
      py_str = ref_str, str_upper = ref_upper, str_lower = ref_lower, str_strip = ref_strip,
      py_eval = ref_eval, md5_hexdigest = (\<lambda>s. s), sha256_hexdigest = (\<lambda>s. s)\<rparr>"


section \<open>Specification-side definitions and example data\<close>

text \<open>
  The verdict of a numeric range rule as the specification words it: the bounds are
  inclusive, the comparison is exact, and a bound that is not configured does not
  constrain the value.
\<close>

definition range_verdict :: "rat option \<Rightarrow> rat option \<Rightarrow> rat \<Rightarrow> pyval \<Rightarrow> verdict" where
  "range_verdict lo hi d message =
     (if (case lo of Some l \<Rightarrow> d < l | None \<Rightarrow> False)
         \<or> (case hi of Some h \<Rightarrow> h < d | None \<Rightarrow> False)
      then (False, message) else (True, PNone))"

text \<open>A freshly ingested row without data, to build examples from.\<close>

definition blank_row :: Row where
  "blank_row =
     \<lparr>row_id = ''f_1'', file_id = ''f'', line_number = 1, raw_data = Map.empty,
      normalized_data = Map.empty, canonical_data = Map.empty, status = PENDING,
      validation_errors = [], mapping_confidence = Map.empty, ai_suggestions = Map.empty,
      approved_by = None, approved_at = None\<rparr>"

text \<open>
  The mapping rules of the priority scenario: rule A has priority 5, rule B priority 10,
  and both target the canonical field \<open>quantity\<close>.
\<close>

definition rule_A :: MappingRule where
  "rule_A =
     \<lparr>vendor_field = ''Qty'', canonical_field = ''quantity'', rule_type = ''exact'',
      pattern = None, priority = 5, fallback = False, confidence = 1\<rparr>"

definition rule_B :: MappingRule where
  "rule_B =
     \<lparr>vendor_field = ''Quantity'', canonical_field = ''quantity'', rule_type = ''exact'',
      pattern = None, priority = 10, fallback = False, confidence = 4 / 5\<rparr>"

text \<open>The formula rule \<open>quantity * price == total\<close> of the cross-field scenario.\<close>

definition total_rule :: CrossFieldRule where
  "total_rule =
     CrossFieldRule_init [''quantity'', ''price'', ''total''] ''formula''
       [''formula'' \<mapsto> PStr ''quantity * price == total'']"


text \<open>
  An ingestion scenario: a pipeline, a text file, a CSV file, a copy of the CSV file
  under another name, a decoder that yields one chunk of two rows, and a clock reading.
\<close>

definition example_ingestion :: IngestionPipeline where
  "example_ingestion = \<lparr>archive_dir = ''archive'', chunk_size = 500\<rparr>"

definition notes_txt :: SourceFile where
  "notes_txt =
     \<lparr>sf_name = ''notes.txt'', sf_resolved = ''/in/notes.txt'', sf_suffix = ''.txt'',
      sf_exists = True, sf_is_file = True, sf_bytes = ''call the vendor''\<rparr>"

definition orders_csv :: SourceFile where
  "orders_csv =
     \<lparr>sf_name = ''orders.csv'', sf_resolved = ''/in/orders.csv'', sf_suffix = ''.csv'',
      sf_exists = True, sf_is_file = True, sf_bytes = ''order_id;A100;A101''\<rparr>"

definition orders_copy :: SourceFile where
  "orders_copy = orders_csv\<lparr>sf_name := ''copy.csv'', sf_resolved := ''/in/copy.csv''\<rparr>"

definition example_parser :: parser where
  "example_parser fmt f =
     ([[[''order_id'' \<mapsto> PStr ''A100''], [''order_id'' \<mapsto> PStr ''A101'']]], None)"

text \<open>A decoder that fails to decode its input before it yields a chunk.\<close>

definition failing_parser :: parser where
  "failing_parser fmt f = ([], Some (Raise ValueError ''codec can not decode byte 0xff''))"

definition noon :: datetime where
  "noon =
     \<lparr>dt_year = 2024, dt_month = 5, dt_day = 6, dt_hour = 12, dt_minute = 0, dt_second = 0\<rparr>"

text \<open>The store after the CSV file has been ingested into the empty store.\<close>

definition orders_ingested :: MetadataStore where
  "orders_ingested =
     fst (process_path ref_lib example_parser example_ingestion noon
            (empty_store, BatchResult_init ''batch_1'' noon) orders_csv)"








section \<open>Structural validation: verified properties\<close>




text \<open>
  C9.  The range check agrees with the specification-side verdict on the exact decimal
  value of the field, where the value \<open>None\<close> counts as zero: with \<open>d\<close> the decimal of the
  value (zero for \<open>None\<close>) and \<open>lo\<close>, \<open>hi\<close> the decimals of the configured bounds, the rule
  is violated exactly when \<open>d < lo\<close> or \<open>hi < d\<close>.  In particular \<open>None\<close> violates every
  range rule with a positive minimum.
\<close>

theorem range_check_exact_inclusive:
  assumes V: "v = PNone \<and> d = 0 \<or> v \<noteq> PNone \<and> Decimal lib v = Inr (Dec d)"
      and L: "kw_get kwargs ''min_value'' = PNone \<and> lo = None
              \<or> kw_get kwargs ''min_value'' \<noteq> PNone
                \<and> (\<exists>l. lo = Some l
                     \<and> Decimal lib (PStr (py_str lib (kw_get kwargs ''min_value''))) = Inr (Dec l))"
      and H: "kw_get kwargs ''max_value'' = PNone \<and> hi = None
              \<or> kw_get kwargs ''max_value'' \<noteq> PNone
                \<and> (\<exists>h. hi = Some h
                     \<and> Decimal lib (PStr (py_str lib (kw_get kwargs ''max_value''))) = Inr (Dec h))"
  shows "range_check lib v message kwargs = Inr (range_verdict lo hi d message)"
  using V L H
  by (auto simp add: range_check_def range_check_body_def except_classes_def range_verdict_def
        Let_def split: bool.splits)

theorem range_check_exact_inclusive_witness:
  "range_check ref_lib PNone (PStr ''amount failed range'') [''min_value'' \<mapsto> PInt 1]
     = Inr (False, PStr ''amount failed range'')
   \<and> range_check ref_lib (PStr ''1'') (PStr ''amount failed range'') [''min_value'' \<mapsto> PInt 1]
     = Inr (True, PNone)
   \<and> RowValidator_validate ref_lib
        [ValidationRule_init ''amount'' ''range'' [''min_value'' \<mapsto> PInt 1]]
        [''amount'' \<mapsto> PNone]
     = Inr [[(''field'', PStr ''amount''), (''rule'', PStr ''range''),
             (''message'', PStr ''amount failed range'')]]"
proof -
  have a: "range_check ref_lib PNone (PStr ''amount failed range'') [''min_value'' \<mapsto> PInt 1]
     = Inr (range_verdict (Some 1) None 0 (PStr ''amount failed range''))"
    by (rule range_check_exact_inclusive)
       (simp_all add: kw_get_def ref_lib_def ref_str_def ref_Decimal_def
          ref_numeral_def ref_strip_def is_space_def plain_numeral_chars_def signed_numeral_def
          unsigned_numeral_def digits_value_def is_digit_def digit_value_def)
  have b: "range_check ref_lib (PStr ''1'') (PStr ''amount failed range'') [''min_value'' \<mapsto> PInt 1]
     = Inr (range_verdict (Some 1) None 1 (PStr ''amount failed range''))"
    by (rule range_check_exact_inclusive)
       (simp_all add: kw_get_def ref_lib_def ref_str_def ref_Decimal_def
          ref_numeral_def ref_strip_def is_space_def plain_numeral_chars_def signed_numeral_def
          unsigned_numeral_def digits_value_def is_digit_def digit_value_def)
  have c: "RowValidator_validate ref_lib
        [ValidationRule_init ''amount'' ''range'' [''min_value'' \<mapsto> PInt 1]]
        [''amount'' \<mapsto> PNone]
     = Inr [[(''field'', PStr ''amount''), (''rule'', PStr ''range''),
             (''message'', PStr ''amount failed range'')]]"
    using a
    by (simp add: RowValidator_validate_def ValidationRule_validate_def VALIDATORS_def
          ValidationRule_init_def range_verdict_def)
  show ?thesis using a b c by (simp add: range_verdict_def)
qed

text \<open>
  C10.  A structural rule whose kind is none of the seven registered kinds reports
  every value as valid, without raising, and so adds no violation for any row.
\<close>

theorem unknown_rule_kind_passes:
  assumes "vr_rule_type rule \<notin>
    {''required'', ''type'', ''range'', ''enum'', ''regex'', ''length'', ''date_format''}"
  shows "ValidationRule_validate lib rule val = Inr (True, PNone)
       \<and> RowValidator_validate lib [rule] canonical = Inr []"
proof -
  have v: "\<And>val. ValidationRule_validate lib rule val = Inr (True, PNone)"
    using assms by (simp add: ValidationRule_validate_def VALIDATORS_def)
  show ?thesis
    by (simp add: v RowValidator_validate_def split: option.splits)
qed

theorem unknown_rule_kind_passes_witness:
  "''requried'' \<notin> {''required'', ''type'', ''range'', ''enum'', ''regex'', ''length'', ''date_format''}
   \<and> ValidationRule_validate ref_lib (ValidationRule_init ''total'' ''requried'' Map.empty) PNone
       = Inr (True, PNone)
   \<and> RowValidator_validate ref_lib [ValidationRule_init ''total'' ''requried'' Map.empty]
        [''total'' \<mapsto> PNone] = Inr []"
  using unknown_rule_kind_passes
    [of "ValidationRule_init ''total'' ''requried'' Map.empty" ref_lib PNone "[''total'' \<mapsto> PNone]"]
  by (simp add: ValidationRule_init_def)

section \<open>Field mapping: verified properties\<close>

text \<open>
  C1.  The code at the priority scenario: the row holds both vendor fields, rule A
  (priority 5) maps \<open>Qty\<close> and rule B (priority 10) maps \<open>Quantity\<close> to \<open>quantity\<close>.
  Whatever the declaration order, the rules are applied in ascending priority and
  every match assigns, so the canonical field ends with the value and the confidence
  of rule B, the rule with the higher priority number.
\<close>

theorem map_row_higher_priority_number_wins:
  "map_row lib (FieldMapper_init [rule_A, rule_B])
     (blank_row\<lparr>normalized_data := [''Qty'' \<mapsto> PStr ''2'', ''Quantity'' \<mapsto> PStr ''3'']\<rparr>)
   = Inr (FieldMapper_init [rule_A, rule_B],
          [''quantity'' \<mapsto> PStr ''3''], [''quantity'' \<mapsto> 4 / 5])
   \<and> map_row lib (FieldMapper_init [rule_B, rule_A])
     (blank_row\<lparr>normalized_data := [''Qty'' \<mapsto> PStr ''2'', ''Quantity'' \<mapsto> PStr ''3'']\<rparr>)
   = Inr (FieldMapper_init [rule_B, rule_A],
          [''quantity'' \<mapsto> PStr ''3''], [''quantity'' \<mapsto> 4 / 5])"
  by (simp add: map_row_def FieldMapper_init_def rule_A_def rule_B_def blank_row_def
      source_data_of_def apply_rule_def write_field_def Let_def)

lemma map_row_result_source:
  "map_row_result lib self row =
     map_sum id (\<lambda>st. (mapped st, confidence_scores st))
       (apply_rules lib (source_data_of row) (mapping_rules self)
          \<lparr>mapped = Map.empty, confidence_scores = Map.empty, used_fields = {}\<rparr>)"
  by (simp add: map_row_result_def map_row_def Let_def split: sum.splits)

text \<open>
  C5, as stated, fails: two rows with the same (empty) normalized data and different
  raw data are mapped to different outputs, because an empty normalized map makes
  \<open>map_row\<close> read the raw data.
\<close>

theorem map_row_raw_data_counterexample:
  "normalized_data (blank_row\<lparr>raw_data := [''Qty'' \<mapsto> PStr ''2'']\<rparr>)
     = normalized_data (blank_row\<lparr>raw_data := [''Qty'' \<mapsto> PStr ''5'']\<rparr>)
   \<and> map_row_result ref_lib (FieldMapper_init [rule_A])
        (blank_row\<lparr>raw_data := [''Qty'' \<mapsto> PStr ''2'']\<rparr>)
     \<noteq> map_row_result ref_lib (FieldMapper_init [rule_A])
        (blank_row\<lparr>raw_data := [''Qty'' \<mapsto> PStr ''5'']\<rparr>)"
proof -
  have ne: "[''quantity'' \<mapsto> PStr ''2''] \<noteq> [''quantity'' \<mapsto> PStr ''5'']"
    by (auto dest!: map_upd_eqD1)
  show ?thesis
    using ne
    by (simp add: map_row_result_def map_row_def FieldMapper_init_def rule_A_def blank_row_def
        source_data_of_def apply_rule_def write_field_def Let_def)
qed

text \<open>
  C5, amended.  The pair returned by \<open>map_row\<close> (or the exception it raises) is a
  function of the rule list and of the source field map, which is the normalized map
  when that is not empty and the raw map otherwise: two rows with the same normalized
  data, and with the same raw data in case the normalized data is empty, give the same
  result under mappers with the same rules, whatever the other fields of the rows and
  whatever the mappers have recorded as unmapped fields before.
\<close>

theorem map_row_function_of_source:
  assumes "normalized_data r1 = normalized_data r2"
      and "normalized_data r1 \<noteq> Map.empty \<or> raw_data r1 = raw_data r2"
      and "mapping_rules m1 = mapping_rules m2"
  shows "map_row_result lib m1 r1 = map_row_result lib m2 r2"
  using assms by (auto simp add: map_row_result_source source_data_of_def)

theorem map_row_function_of_source_witness:
  "map_row_result ref_lib (FieldMapper_init [rule_A])
      (blank_row\<lparr>raw_data := [''Qty'' \<mapsto> PStr '' 2 ''],
                  normalized_data := [''Qty'' \<mapsto> PStr ''2'']\<rparr>)
   = map_row_result ref_lib ((FieldMapper_init [rule_A])\<lparr>unmapped_fields := {''Notes''}\<rparr>)
      (blank_row\<lparr>raw_data := [''Qty'' \<mapsto> PStr ''2.0''],
                  normalized_data := [''Qty'' \<mapsto> PStr ''2''], row_id := ''g_7''\<rparr>)"
  by (rule map_row_function_of_source) (simp_all add: blank_row_def)


section \<open>Cross-field and pipeline validation: verified properties\<close>

lemma CrossFieldValidator_loop_skip:
  "CrossFieldRule_validate lib rule canonical = Inr None \<Longrightarrow>
   CrossFieldValidator_loop lib canonical (pre @ rule # post) errors =
   CrossFieldValidator_loop lib canonical (pre @ post) errors"
  by (induction pre arbitrary: errors) (auto split: option.splits sum.splits)

lemma total_rule_eval:
  "formula_eval ref_lib total_rule [''quantity'' \<mapsto> PInt 2, ''price'' \<mapsto> PStr ''3.50'']
   = Inl (Raise NameError (''name '' @ CHR 0x27 # ''total'' @ CHR 0x27 # '' is not defined''))"
  by code_simp

text \<open>
  C2, as stated, fails: for the rule \<open>quantity * price == total\<close> and a row without the
  field \<open>total\<close> the evaluation raises \<open>NameError\<close>, and the validator records no
  violation.
\<close>

theorem formula_error_counterexample:
  "formula_eval ref_lib total_rule [''quantity'' \<mapsto> PInt 2, ''price'' \<mapsto> PStr ''3.50'']
     = Inl (Raise NameError (''name '' @ CHR 0x27 # ''total'' @ CHR 0x27 # '' is not defined''))
   \<and> CrossFieldValidator_validate ref_lib [total_rule]
       [''quantity'' \<mapsto> PInt 2, ''price'' \<mapsto> PStr ''3.50''] = Inr []"
  by (simp add: total_rule_eval CrossFieldValidator_validate_def CrossFieldRule_validate_def
        validate_formula_def) (simp add: total_rule_def CrossFieldRule_init_def)

text \<open>
  C2, amended.  When the evaluation of a formula rule raises an error, the rule
  returns no violation and raises nothing: the validator gives the same outcome as
  without the rule.
\<close>

theorem formula_error_passes_silently:
  assumes "cf_rule_type rule = ''formula''"
      and "formula_eval lib rule canonical = Inl e"
  shows "CrossFieldRule_validate lib rule canonical = Inr None
       \<and> CrossFieldValidator_validate lib (pre @ rule # post) canonical
           = CrossFieldValidator_validate lib (pre @ post) canonical"
proof -
  have a: "CrossFieldRule_validate lib rule canonical = Inr None"
    using assms by (simp add: CrossFieldRule_validate_def validate_formula_def)
  show ?thesis
    using a by (simp add: CrossFieldValidator_validate_def CrossFieldValidator_loop_skip)
qed

theorem formula_error_passes_silently_witness:
  "cf_rule_type total_rule = ''formula''
   \<and> CrossFieldRule_validate ref_lib total_rule
        [''quantity'' \<mapsto> PInt 2, ''price'' \<mapsto> PStr ''3.50''] = Inr None"
  using formula_error_passes_silently [OF _ total_rule_eval, of "[]" "[]"]
  by (simp add: total_rule_def CrossFieldRule_init_def)






section \<open>Ingestion: verified properties\<close>

lemma count_key_distinct:
  "distinct (map fst xs) \<Longrightarrow> map_of xs k = Some v
   \<Longrightarrow> length (filter (\<lambda>kv. fst kv = k) xs) = 1"
proof (induction xs)
  case Nil
  then show ?case by simp
next
  case (Cons a xs)
  show ?case
  proof (cases "fst a = k")
    case True
    then have "k \<notin> fst ` set xs" using Cons.prems(1) by auto
    then have "filter (\<lambda>kv. fst kv = k) xs = []"
      by (auto simp add: filter_empty_conv)
    then show ?thesis using True by simp
  next
    case False
    then have "map_of xs k = Some v" using Cons.prems(2) by (cases a) (auto split: if_splits)
    then show ?thesis using Cons False by simp
  qed
qed

text \<open>The primary key stays a key: \<open>INSERT OR REPLACE\<close> never duplicates it.\<close>

lemma distinct_insert_or_replace:
  "distinct (map fst t) \<Longrightarrow> distinct (map fst (insert_or_replace k v t))"
  by (simp add: insert_or_replace_def AList.distinct_delete delete_notin_dom)

lemma distinct_insert_file:
  "distinct (map fst (files store)) \<Longrightarrow> distinct (map fst (files (insert_file store m)))"
  by (simp add: insert_file_def distinct_insert_or_replace)

lemma iterate_ChunkRows_store:
  "it_store (iterate parser self store (ChunkRows rs)) = store"
  by (simp add: iterate_def)

text \<open>
  C4.  When the store holds a file record for the content hash of a file with status
  \<open>SUCCESS\<close>, processing the file again writes nothing: \<open>process_file\<close> returns the
  store as it was, and so does the whole loop body of \<open>process_directory\<close>, which also
  iterates over the returned rows.  Hence no file record and no row record is added or
  changed, and the store holds exactly one file record with that hash.
\<close>

theorem reingest_after_success_is_noop:
  assumes "sf_exists f" and "sf_is_file f"
      and "get_file store (sha256_hexdigest lib (sf_bytes f)) = Some m"
      and "fm_status m = FS_SUCCESS"
      and "distinct (map fst (files store))"
  shows "fst (process_file lib self store now f) = store
       \<and> fst (process_path lib parser self now (store, batch) f) = store
       \<and> length (filter (\<lambda>kv. fst kv = sha256_hexdigest lib (sf_bytes f))
                   (files (fst (process_path lib parser self now (store, batch) f)))) = 1"
proof -
  obtain meta where f: "fetch lib (archive_dir self) now f = Inr meta"
    and id: "fm_file_id meta = sha256_hexdigest lib (sf_bytes f)"
    using assms(1) by (simp add: fetch_def Let_def)
  have pf: "process_file lib self store now f
      = (store, Inr (meta, ChunkRows (get_rows_by_file store (fm_file_id meta))))"
    using assms(3,4) by (simp add: process_file_def f id)
  have pp: "fst (process_path lib parser self now (store, batch) f) = store"
    using assms(2)
    by (simp add: process_path_def pf iterate_ChunkRows_store Let_def split: option.splits)
  have one: "length (filter (\<lambda>kv. fst kv = sha256_hexdigest lib (sf_bytes f)) (files store)) = 1"
    using assms(3,5) by (simp add: get_file_def count_key_distinct)
  show ?thesis using pf pp one by simp
qed

lemma orders_ingested_facts:
  "map_option fm_status
     (get_file orders_ingested (sha256_hexdigest ref_lib (sf_bytes orders_copy))) = Some FS_SUCCESS
   \<and> distinct (map fst (files orders_ingested))
   \<and> sf_exists orders_copy \<and> sf_is_file orders_copy
   \<and> sf_bytes orders_copy = sf_bytes orders_csv
   \<and> map fst (rows orders_ingested) = [''order_id;A100;A101_1'', ''order_id;A100;A101_2'']"
  by code_simp

theorem reingest_after_success_is_noop_witness:
  "sf_bytes orders_copy = sf_bytes orders_csv
   \<and> fst (process_path ref_lib example_parser example_ingestion noon
            (orders_ingested, BatchResult_init ''batch_2'' noon) orders_copy) = orders_ingested
   \<and> length (filter (\<lambda>kv. fst kv = sha256_hexdigest ref_lib (sf_bytes orders_copy))
               (files (fst (process_path ref_lib example_parser example_ingestion noon
                  (orders_ingested, BatchResult_init ''batch_2'' noon) orders_copy)))) = 1"
proof -
  obtain m where m: "get_file orders_ingested (sha256_hexdigest ref_lib (sf_bytes orders_copy)) = Some m"
    and s: "fm_status m = FS_SUCCESS"
    using orders_ingested_facts by auto
  have e: "sf_exists orders_copy" and i: "sf_is_file orders_copy"
    and d: "distinct (map fst (files orders_ingested))"
    and b: "sf_bytes orders_copy = sf_bytes orders_csv"
    using orders_ingested_facts by blast+
  show ?thesis
    using reingest_after_success_is_noop
      [OF e i m s d, of example_ingestion noon example_parser "BatchResult_init ''batch_2'' noon"]
      b
    by blast
qed

text \<open>
  C7.  The code at a directory with a text file and a CSV file.  The text file is
  fetched and its format detected as \<open>txt\<close>, for which no decoder is registered.  The
  exception \<open>Unsupported format: txt\<close> is raised when \<open>process_directory\<close> iterates over
  the rows, after \<open>process_file\<close> has returned; the run continues with the CSV file and
  lists the message in the errors of the batch, but the file record of the text file
  stays as \<open>process_file\<close> stored it: status \<open>SUCCESS\<close>, no error message.  The same
  happens to the CSV file when its decoder raises a decode error.
\<close>

theorem unsupported_format_left_as_success:
  "(case process_directory ref_lib example_parser example_ingestion empty_store ''batch_1'' noon
           [notes_txt, orders_csv] of
      (store, result) \<Rightarrow>
        (map_option (\<lambda>m. (fm_status m, fm_error_message m))
           (get_file store (sha256_hexdigest ref_lib (sf_bytes notes_txt))),
         br_errors result, br_status result,
         map fm_filename (br_file_results result), br_total_rows result))
   = (Some (FS_SUCCESS, None), [''Unsupported format: txt''], FS_PARTIAL_SUCCESS,
      [''notes.txt'', ''orders.csv''], 2)
   \<and> (case process_directory ref_lib failing_parser example_ingestion empty_store ''batch_1'' noon
           [orders_csv] of
      (store, result) \<Rightarrow>
        (map_option (\<lambda>m. (fm_status m, fm_error_message m))
           (get_file store (sha256_hexdigest ref_lib (sf_bytes orders_csv))),
         br_errors result, br_status result))
   = (Some (FS_SUCCESS, None), [''codec can not decode byte 0xff''], FS_PARTIAL_SUCCESS)"
  by code_simp


section \<open>Reconciliation: verified properties\<close>
























end
